theory Spec2Isabelle
  imports Main
begin

section \<open>JavaScript string and array primitives used by the generator\<close>

text \<open>
  The generator is written in TypeScript and builds its output with a handful of
  built-in string and array operations. They are modelled here on \<open>string\<close>
  (a list of characters), each following the ECMAScript definition of the
  operation it stands for.
\<close>

text \<open>\<^verbatim>\<open>s.startsWith(p)\<close>\<close>

definition startsWith :: "string \<Rightarrow> string \<Rightarrow> bool" where
  "startsWith s p = (take (length p) s = p)"

text \<open>
  The first occurrence of a pattern in a string, as the text before it and the
  text after it; \<open>None\<close> when the pattern does not occur.
\<close>

fun search :: "string \<Rightarrow> string \<Rightarrow> (string \<times> string) option" where
  "search pat [] = (if pat = [] then Some ([], []) else None)"
| "search pat (c # cs) =
     (if startsWith (c # cs) pat then Some ([], drop (length pat) (c # cs))
      else map_option (\<lambda>(b, a). (c # b, a)) (search pat cs))"

text \<open>\<^verbatim>\<open>s.includes(p)\<close> (the plain name is a keyword of Isabelle).\<close>

definition includesStr :: "string \<Rightarrow> string \<Rightarrow> bool" where
  "includesStr s p = (search p s \<noteq> None)"

text \<open>
  The replacement text of \<^verbatim>\<open>String.prototype.replace\<close> for a string pattern
  (ECMAScript GetSubstitution with no capture groups): in the replacement
  template \<^verbatim>\<open>$$\<close> stands for a dollar sign, \<^verbatim>\<open>$&\<close> for the matched text,
  \<^verbatim>\<open>$`\<close> for the text before the match and \<^verbatim>\<open>$'\<close> for the text after it;
  every other character, a dollar sign included, stands for itself.
\<close>

fun getSubstitution :: "string \<Rightarrow> string \<Rightarrow> string \<Rightarrow> string \<Rightarrow> string" where
  "getSubstitution m b a [] = []"
| "getSubstitution m b a [c] = [c]"
| "getSubstitution m b a (c # d # r) =
     (if c = CHR ''$'' \<and> d = CHR ''$'' then CHR ''$'' # getSubstitution m b a r
      else if c = CHR ''$'' \<and> d = CHR ''&'' then m @ getSubstitution m b a r
      else if c = CHR ''$'' \<and> d = CHR 0x60 then b @ getSubstitution m b a r
      else if c = CHR ''$'' \<and> d = CHR 0x27 then a @ getSubstitution m b a r
      else c # getSubstitution m b a (d # r))"

text \<open>
  \<^verbatim>\<open>s.replace(pat, repl)\<close> with a string pattern: only the first occurrence is
  replaced, and a string without the pattern is returned as it is.
\<close>

definition replace :: "string \<Rightarrow> string \<Rightarrow> string \<Rightarrow> string" where
  "replace s pat repl =
     (case search pat s of
        None \<Rightarrow> s
      | Some (b, a) \<Rightarrow> b @ getSubstitution pat b a repl @ a)"

text \<open>
  The string a possibly missing string value turns into where JavaScript converts
  it to text (as the replacement of \<^verbatim>\<open>replace\<close>, or in a template literal): a
  missing property reads as \<^verbatim>\<open>undefined\<close>, whose text is \<^verbatim>\<open>"undefined"\<close>.
\<close>

definition toString :: "string option \<Rightarrow> string" where
  "toString v = (case v of None \<Rightarrow> ''undefined'' | Some s \<Rightarrow> s)"

text \<open>\<^verbatim>\<open>xs.join(sep)\<close> on an array of strings.\<close>

fun join :: "string \<Rightarrow> string list \<Rightarrow> string" where
  "join sep [] = []"
| "join sep [x] = x"
| "join sep (x # y # r) = x @ sep @ join sep (y # r)"

text \<open>
  The decimal text of a counter value, as a template literal prints a
  non-negative integer.
\<close>

fun numberToString :: "nat \<Rightarrow> string" where
  "numberToString n =
     (if n < 10 then [''0123456789'' ! n]
      else numberToString (n div 10) @ [''0123456789'' ! (n mod 10)])"

declare numberToString.simps [simp del]

section \<open>The ABI data model\<close>

text \<open>
  A parameter has a name, a type string, optional components (present for a
  tuple) and, when an event owns it, an optional indexed flag.
\<close>

datatype parameter =
  Parameter (pname: string) (ptype: string)
            (components: "parameter list option") (indexed: "bool option")

text \<open>
  The entries of an ABI. The generator reads the outputs and the state mutability
  of a function defensively, so both are optional here; so is the anonymous flag
  of an event.
\<close>

datatype entry =
  FunctionEntry string "parameter list" "parameter list option" "string option"
| ConstructorEntry "parameter list" "string option"
| FallbackEntry "string option"
| ReceiveEntry "string option"
| EventEntry string "parameter list" "bool option"

type_synonym abi = "entry list"

section \<open>The declaration table\<close>

text \<open>
  A component of a declaration and a declaration, as the generator reads them
  (the module \<^verbatim>\<open>./declarations\<close> that declares them is not part of the
  source). The field \<^verbatim>\<open>identifier\<close> is \<open>d_identifier\<close> here, the plain name
  being a keyword of Isabelle.
\<close>

record Component =
  cname :: string
  ctype :: string
  csignature :: "string option"

record Declaration =
  d_identifier :: "string option"
  d_components :: "Component list"

text \<open>
  The table is a JavaScript object keyed by signature. It is modelled by what
  \<^verbatim>\<open>Object.entries\<close> returns for it: the list of its (signature, declaration)
  pairs in the object's own enumeration order. The keys of an object are
  pairwise different, which theorems about a table assume as
  \<open>distinct (map fst ds)\<close>. The keys are structural signatures: a signature
  starts with a parenthesis, so it is never the name of a property that every
  JavaScript object inherits, and reading a signature that was not stored gives
  \<^verbatim>\<open>undefined\<close>.
\<close>

type_synonym Declarations = "(string \<times> Declaration) list"

text \<open>
  Modelled from the spec: \<^verbatim>\<open>Codec.AbiData.Utils.abiTupleSignature\<close>, the
  structural signature, is a library function that is not part of the source.
  The spec describes it as a canonical string derived from the component types
  only, nested tuples recursively: here the component signatures between
  parentheses, separated by commas, where a component with components of its own
  contributes their signature followed by what its type string has after the
  \<^verbatim>\<open>tuple\<close> marker (the array suffixes).
\<close>

fun abiTypeSignature :: "parameter \<Rightarrow> string"
  and abiTupleSignature :: "parameter list \<Rightarrow> string" where
  "abiTypeSignature (Parameter n t None i) = t"
| "abiTypeSignature (Parameter n t (Some cs) i) = abiTupleSignature cs @ drop 5 t"
| "abiTupleSignature ps = ''('' @ join '','' (map abiTypeSignature ps) @ '')''"

section \<open>The generator\<close>

record generateSolidityOptions =
  opt_name :: "string option"
  opt_solidityVersion :: "string option"
  opt_license :: "string option"
  opt_prettier :: "bool option"

text \<open>
  The module \<^verbatim>\<open>./defaults\<close> is not part of the source; its three constants are
  taken as a parameter.
\<close>

record defaults =
  default_name :: string
  default_license :: string
  default_solidityVersion :: string

record solidityGenerator =
  name :: string
  license :: string
  solidityVersion :: string
  declarations :: Declarations
  identifiers :: "string \<rightharpoonup> string"

text \<open>
  The loop of the constructor over \<^verbatim>\<open>Object.entries(declarations)\<close>: the state
  is the identifier table built so far and the counter \<^verbatim>\<open>index\<close>. An
  identifier that is missing or the empty string is falsy, and the entry then
  gets \<^verbatim>\<open>S_<index>\<close> and the counter moves on. The counter is a natural
  number here; the JavaScript number counts exactly far beyond the size of any
  table.
\<close>

fun assignIdentifiers ::
  "Declarations \<Rightarrow> (string \<rightharpoonup> string) \<times> nat \<Rightarrow> (string \<rightharpoonup> string) \<times> nat" where
  "assignIdentifiers [] (ids, index) = (ids, index)"
| "assignIdentifiers ((signature, d) # ds) (ids, index) =
     (case d_identifier d of
        Some i \<Rightarrow>
          (if i \<noteq> [] then assignIdentifiers ds (ids(signature \<mapsto> i), index)
           else assignIdentifiers ds (ids(signature \<mapsto> ''S_'' @ numberToString index), Suc index))
      | None \<Rightarrow>
          assignIdentifiers ds (ids(signature \<mapsto> ''S_'' @ numberToString index), Suc index))"

definition SolidityGenerator ::
  "defaults \<Rightarrow> generateSolidityOptions \<Rightarrow> Declarations \<Rightarrow> solidityGenerator" where
  "SolidityGenerator dflt options ds =
     \<lparr> name = (case opt_name options of None \<Rightarrow> default_name dflt | Some n \<Rightarrow> n),
       license = (case opt_license options of None \<Rightarrow> default_license dflt | Some l \<Rightarrow> l),
       solidityVersion =
         (case opt_solidityVersion options of
            None \<Rightarrow> default_solidityVersion dflt | Some v \<Rightarrow> v),
       declarations = ds,
       identifiers = fst (assignIdentifiers ds (Map.empty, 0)) \<rparr>"

text \<open>The context a parameter is rendered in: the modifiers of its owner.\<close>

record Context =
  parameterModifiers :: "parameter \<Rightarrow> string list"

definition generateType :: "solidityGenerator \<Rightarrow> parameter \<Rightarrow> string" where
  "generateType g parameter =
     (case components parameter of
        None \<Rightarrow> ptype parameter
      | Some cs \<Rightarrow>
          replace (ptype parameter) ''tuple''
            (toString (identifiers g (abiTupleSignature cs))))"

definition visitParameter :: "solidityGenerator \<Rightarrow> Context \<Rightarrow> parameter \<Rightarrow> string" where
  "visitParameter g ctx parameter =
     join '' '' ([generateType g parameter] @ parameterModifiers ctx parameter
                 @ [pname parameter])"

definition generateStateMutability :: "string option \<Rightarrow> string" where
  "generateStateMutability stateMutability =
     (case stateMutability of
        None \<Rightarrow> ''''
      | Some m \<Rightarrow> (if m \<noteq> '''' \<and> m \<noteq> ''nonpayable'' then m else ''''))"

text \<open>
  The modifiers of a function input or output, and those of an event input.
\<close>

definition functionContext :: Context where
  "functionContext =
     \<lparr> parameterModifiers = (\<lambda>parameter.
         if startsWith (ptype parameter) ''tuple'' \<or> includesStr (ptype parameter) ''[''
            \<or> ptype parameter = ''bytes'' \<or> ptype parameter = ''string''
         then [''memory''] else []) \<rparr>"

definition eventContext :: Context where
  "eventContext =
     \<lparr> parameterModifiers = (\<lambda>parameter.
         if indexed parameter = Some True then [''indexed''] else []) \<rparr>"

text \<open>
  An array that is itself an element of a joined array is converted to text by
  \<^verbatim>\<open>Array.prototype.toString\<close>, which joins its elements with a comma: that is
  how the inputs of a function and of an event are put together. The outputs of a
  function are joined with a comma and a space by the code itself.
\<close>

definition visitFunctionEntry ::
  "solidityGenerator \<Rightarrow> string \<Rightarrow> parameter list \<Rightarrow> parameter list option
     \<Rightarrow> string option \<Rightarrow> string" where
  "visitFunctionEntry g nm inputs outputs stateMutability =
     join '' ''
       [''function '' @ nm @ ''('',
        join '','' (map (visitParameter g functionContext) inputs),
        '') external'',
        generateStateMutability stateMutability,
        (case outputs of
           None \<Rightarrow> ''''
         | Some os \<Rightarrow>
             (if length os > 0
              then join '''' [''returns ('',
                     join '', '' (map (visitParameter g functionContext) os), '')'']
              else '''')),
        '';'']"

definition visitConstructorEntry :: "solidityGenerator \<Rightarrow> string" where
  "visitConstructorEntry g = ''''"

definition visitFallbackEntry :: "solidityGenerator \<Rightarrow> string option \<Rightarrow> string" where
  "visitFallbackEntry g stateMutability =
     ''fallback () external ''
       @ (if stateMutability = Some ''payable'' then ''payable'' else '''') @ '';''"

definition visitReceiveEntry :: "solidityGenerator \<Rightarrow> string" where
  "visitReceiveEntry g = ''receive () external payable;''"

definition visitEventEntry ::
  "solidityGenerator \<Rightarrow> string \<Rightarrow> parameter list \<Rightarrow> bool option \<Rightarrow> string" where
  "visitEventEntry g nm inputs anonymous =
     join '' ''
       [''event '' @ nm @ ''('',
        join '','' (map (visitParameter g eventContext) inputs),
        '')'',
        (if anonymous = Some True then ''anonymous'' else '''') @ '';'']"

text \<open>
  Modelled from the spec: \<^verbatim>\<open>dispatch\<close> of the module \<^verbatim>\<open>./visitor\<close>, which is
  not part of the source. The spec describes it as plumbing that invokes the
  handler registered for the node's kind; on an entry that is the case
  distinction below.
\<close>

fun dispatch :: "solidityGenerator \<Rightarrow> entry \<Rightarrow> string" where
  "dispatch g (FunctionEntry nm inputs outputs m) = visitFunctionEntry g nm inputs outputs m"
| "dispatch g (ConstructorEntry inputs m) = visitConstructorEntry g"
| "dispatch g (FallbackEntry m) = visitFallbackEntry g m"
| "dispatch g (ReceiveEntry m) = visitReceiveEntry g"
| "dispatch g (EventEntry nm inputs anonymous) = visitEventEntry g nm inputs anonymous"

definition generateHeader :: "solidityGenerator \<Rightarrow> string" where
  "generateHeader g =
     join ''\<newline>''
       [''// SPDX-License-Identifier: '' @ license g,
        ''// !! THIS FILE WAS AUTOGENERATED BY abi-to-sol. SEE BELOW FOR SOURCE. !!'',
        ''pragma solidity '' @ solidityVersion g @ '';'',
        ''pragma experimental ABIEncoderV2;'']"

text \<open>
  \<^verbatim>\<open>JSON.stringify\<close> is a built-in of the language; the serialisation of an
  ABI is taken as a parameter.
\<close>

definition generateAutogeneratedNotice :: "(abi \<Rightarrow> string) \<Rightarrow> abi \<Rightarrow> string" where
  "generateAutogeneratedNotice stringify abi =
     join ''\<newline>''
       ['''',
        ''// THIS FILE WAS AUTOGENERATED FROM THE FOLLOWING ABI JSON:'',
        ''/*'',
        stringify abi,
        ''*/'']"

definition generateComponents :: "solidityGenerator \<Rightarrow> Declaration \<Rightarrow> string" where
  "generateComponents g d =
     join ''\<newline>''
       (map (\<lambda>c.
          (case csignature c of
             None \<Rightarrow> ctype c @ '' '' @ cname c @ '';''
           | Some s \<Rightarrow>
               (if s = '''' then ctype c @ '' '' @ cname c @ '';''
                else replace (ctype c) ''tuple'' (toString (identifiers g s))
                       @ '' '' @ cname c @ '';'')))
        (d_components d))"

definition generateDeclarations :: "solidityGenerator \<Rightarrow> string" where
  "generateDeclarations g =
     join ''\<newline>\<newline>''
       (map (\<lambda>(signature, d).
          ''struct '' @ toString (identifiers g signature) @ '' { ''
            @ generateComponents g d @ '' }'')
        (declarations g))"

definition generateInterface :: "solidityGenerator \<Rightarrow> abi \<Rightarrow> string" where
  "generateInterface g abi =
     join ''\<newline>''
       ([''interface '' @ name g @ '' {''] @ map (dispatch g) abi @ [''}''])"

definition visitAbi :: "(abi \<Rightarrow> string) \<Rightarrow> solidityGenerator \<Rightarrow> abi \<Rightarrow> string" where
  "visitAbi stringify g abi =
     join ''\<newline>\<newline>''
       [generateHeader g,
        generateDeclarations g,
        generateInterface g abi,
        generateAutogeneratedNotice stringify abi]"

text \<open>
  What \<^verbatim>\<open>generateSolidity\<close> gets from outside the source: the defaults, the
  collector of the module \<^verbatim>\<open>./declarations\<close>, the normalisation that the
  dispatcher applies to the ABI, the serialiser, and the formatter, which
  returns the formatted text or throws.
\<close>

datatype error = FormatterError

record environment =
  env_defaults :: defaults
  collectDeclarations :: "abi \<Rightarrow> Declarations"
  Abi_normalize :: "abi \<Rightarrow> abi"
  JSON_stringify :: "abi \<Rightarrow> string"
  prettier_format :: "string \<Rightarrow> error + string"

text \<open>
  Modelled from the spec: \<^verbatim>\<open>dispatch\<close> on the ABI node (module \<^verbatim>\<open>./visitor\<close>,
  not part of the source) invokes the handler of that kind, \<^verbatim>\<open>visitAbi\<close>.
  \<^verbatim>\<open>generateSolidity\<close> accepts a loose ABI (\<^verbatim>\<open>Abi.Abi | SchemaAbi\<close>) while the
  node of \<^verbatim>\<open>visitAbi\<close> is an \<^verbatim>\<open>Abi.Abi\<close>: the dispatcher brings the ABI
  into its normal form before the visit. The spec does not describe that
  normalisation; it is the parameter \<open>Abi_normalize\<close> of the environment.
\<close>

definition dispatchAbi :: "environment \<Rightarrow> solidityGenerator \<Rightarrow> abi \<Rightarrow> string" where
  "dispatchAbi env g abi = visitAbi (JSON_stringify env) g (Abi_normalize env abi)"

text \<open>
  The constant \<^verbatim>\<open>generated\<close> of \<^verbatim>\<open>generateSolidity\<close>: the collector reads the
  ABI as it was passed in, and the ABI node is dispatched to a new generator.
\<close>

definition generated_text :: "environment \<Rightarrow> generateSolidityOptions \<Rightarrow> abi \<Rightarrow> string" where
  "generated_text env options abi =
     dispatchAbi env
       (SolidityGenerator (env_defaults env) options (collectDeclarations env abi)) abi"

definition generateSolidity :: "environment \<Rightarrow> generateSolidityOptions \<Rightarrow> abi \<Rightarrow> string" where
  "generateSolidity env options abi =
     (let generated = generated_text env options abi in
      if opt_prettier options \<noteq> Some True then generated
      else (case prettier_format env generated of
              Inr formatted \<Rightarrow> formatted
            | Inl e \<Rightarrow> generated))"

section \<open>Notions used to state the properties\<close>

text \<open>
  An entry lacks an inferred identifier when the identifier is missing or the
  empty string (both are falsy in the test of the constructor).
\<close>

definition lacksIdentifier :: "Declaration \<Rightarrow> bool" where
  "lacksIdentifier d = (d_identifier d = None \<or> d_identifier d = Some [])"

text \<open>The number of entries before position \<open>i\<close> that lack an identifier.\<close>

definition syntheticIndex :: "Declarations \<Rightarrow> nat \<Rightarrow> nat" where
  "syntheticIndex ds i = length (filter (\<lambda>e. lacksIdentifier (snd e)) (take i ds))"

text \<open>The inferred identifiers of a table, in table order.\<close>

definition inferredIdentifiers :: "Declarations \<Rightarrow> string list" where
  "inferredIdentifiers ds =
     map (\<lambda>e. the (d_identifier (snd e))) (filter (\<lambda>e. \<not> lacksIdentifier (snd e)) ds)"

text \<open>
  Two parameters are structurally identical when their type strings are equal
  and their components, if any, are structurally identical in the same order;
  names and indexed flags do not matter.
\<close>

fun sameShape :: "parameter \<Rightarrow> parameter \<Rightarrow> bool"
  and sameShapes :: "parameter list \<Rightarrow> parameter list \<Rightarrow> bool" where
  "sameShape (Parameter n t None i) (Parameter n' t' None i') = (t = t')"
| "sameShape (Parameter n t (Some cs) i) (Parameter n' t' (Some cs') i') =
     (t = t' \<and> sameShapes cs cs')"
| "sameShape (Parameter n t None i) (Parameter n' t' (Some cs') i') = False"
| "sameShape (Parameter n t (Some cs) i) (Parameter n' t' None i') = False"
| "sameShapes [] [] = True"
| "sameShapes (p # ps) (q # qs) = (sameShape p q \<and> sameShapes ps qs)"
| "sameShapes [] (q # qs) = False"
| "sameShapes (p # ps) [] = False"



section \<open>Example inputs\<close>

text \<open>Concrete values at which the theorems below are instantiated.\<close>

definition exampleDefaults :: defaults where
  "exampleDefaults =
     \<lparr> default_name = ''MyInterface'', default_license = ''UNLICENSED'',
       default_solidityVersion = ''>=0.5.0'' \<rparr>"

definition noOptions :: generateSolidityOptions where
  "noOptions =
     \<lparr> opt_name = None, opt_solidityVersion = None, opt_license = None,
       opt_prettier = None \<rparr>"

text \<open>A generator over the empty declaration table.\<close>

definition exampleGenerator :: solidityGenerator where
  "exampleGenerator = SolidityGenerator exampleDefaults noOptions []"

text \<open>
  A table of three declarations: one without an identifier, one with the
  inferred identifier \<^verbatim>\<open>Foo\<close> and a component that refers to the first, and
  one whose identifier is the empty string.
\<close>

definition exampleTable :: Declarations where
  "exampleTable =
     [(''(uint256)'',
       \<lparr> d_identifier = None,
         d_components = [\<lparr> cname = ''a'', ctype = ''uint256'', csignature = None \<rparr>] \<rparr>),
      (''((uint256)[],address)'',
       \<lparr> d_identifier = Some ''Foo'',
         d_components =
           [\<lparr> cname = ''xs'', ctype = ''tuple[]'', csignature = Some ''(uint256)'' \<rparr>,
            \<lparr> cname = ''b'', ctype = ''address'', csignature = None \<rparr>] \<rparr>),
      (''(bool)'',
       \<lparr> d_identifier = Some '''',
         d_components = [\<lparr> cname = ''ok'', ctype = ''bool'', csignature = None \<rparr>] \<rparr>)]"

text \<open>
  A table whose first entry carries the inferred identifier \<^verbatim>\<open>S_0\<close> and whose
  second entry has none.
\<close>

definition collidingTable :: Declarations where
  "collidingTable =
     [(''(uint256)'',
       \<lparr> d_identifier = Some ''S_0'',
         d_components = [\<lparr> cname = ''a'', ctype = ''uint256'', csignature = None \<rparr>] \<rparr>),
      (''(address)'',
       \<lparr> d_identifier = None,
         d_components = [\<lparr> cname = ''b'', ctype = ''address'', csignature = None \<rparr>] \<rparr>)]"

definition failingFormatter :: "string \<Rightarrow> error + string" where
  "failingFormatter text = Inl FormatterError"

text \<open>
  An example of a normaliser: it gives a function entry the empty list for
  missing outputs and \<^verbatim>\<open>nonpayable\<close> for a missing state mutability, and
  leaves every other entry as it is.
\<close>

fun fillEntryDefaults :: "entry \<Rightarrow> entry" where
  "fillEntryDefaults (FunctionEntry nm inputs outputs m) =
     FunctionEntry nm inputs
       (Some (case outputs of None \<Rightarrow> [] | Some os \<Rightarrow> os))
       (Some (case m of None \<Rightarrow> ''nonpayable'' | Some k \<Rightarrow> k))"
| "fillEntryDefaults (ConstructorEntry inputs m) = ConstructorEntry inputs m"
| "fillEntryDefaults (FallbackEntry m) = FallbackEntry m"
| "fillEntryDefaults (ReceiveEntry m) = ReceiveEntry m"
| "fillEntryDefaults (EventEntry nm inputs anonymous) = EventEntry nm inputs anonymous"

definition exampleNormalize :: "abi \<Rightarrow> abi" where
  "exampleNormalize abi = map fillEntryDefaults abi"

text \<open>
  An environment for the empty ABI: nothing to collect, the serialisation of the
  empty array, and a formatter that always throws.
\<close>

definition exampleEnvironment :: environment where
  "exampleEnvironment =
     \<lparr> env_defaults = exampleDefaults, collectDeclarations = (\<lambda>abi. []),
       Abi_normalize = exampleNormalize,
       JSON_stringify = (\<lambda>abi. ''[]''), prettier_format = failingFormatter \<rparr>"







text \<open>
  A table whose only entry carries an inferred identifier with two dollar signs
  in a row, a legal name of a Solidity struct.
\<close>

definition dollarTable :: Declarations where
  "dollarTable =
     [(''(uint256)'',
       \<lparr> d_identifier = Some ''A$$B'',
         d_components = [\<lparr> cname = ''a'', ctype = ''uint256'', csignature = None \<rparr>] \<rparr>)]"

section \<open>Facts about the string primitives\<close>

lemma join_lines: "join sep (x # xs) = x @ concat (map (\<lambda>l. sep @ l) xs)"
  by (induction xs arbitrary: x rule: induct_list012) simp_all

lemma includesStr_single: "includesStr s [c] \<longleftrightarrow> c \<in> set s"
  by (induction s) (auto simp: includesStr_def startsWith_def)

lemma getSubstitution_plain: "CHR ''$'' \<notin> set r \<Longrightarrow> getSubstitution m b a r = r"
  by (induction m b a r rule: getSubstitution.induct) auto

lemma search_prefix: "search pat (pat @ sfx) = Some ([], sfx)"
proof (cases "pat @ sfx")
  case Nil
  then show ?thesis by simp
next
  case (Cons c cs)
  have "startsWith (pat @ sfx) pat" by (simp add: startsWith_def)
  moreover have "drop (length pat) (pat @ sfx) = sfx" by simp
  ultimately show ?thesis unfolding Cons by simp
qed

lemma replace_prefix:
  "replace (pat @ sfx) pat r = getSubstitution pat [] sfx r @ sfx"
  by (simp add: replace_def search_prefix)

section \<open>The header\<close>


text \<open>
  C10. Whatever the ABI and whatever the declaration table, the generated text
  begins with the header: the license marker, the autogenerated warning, the
  solidity version pragma and the line \<^verbatim>\<open>pragma experimental ABIEncoderV2;\<close>,
  followed by a blank line.
\<close>

theorem header_always_has_experimental_pragma:
  "\<exists>rest. generated_text env options abi =
     ''// SPDX-License-Identifier: '' @ license (SolidityGenerator (env_defaults env) options (collectDeclarations env abi))
     @ ''\<newline>// !! THIS FILE WAS AUTOGENERATED BY abi-to-sol. SEE BELOW FOR SOURCE. !!''
     @ ''\<newline>pragma solidity '' @ solidityVersion (SolidityGenerator (env_defaults env) options (collectDeclarations env abi)) @ '';''
     @ ''\<newline>pragma experimental ABIEncoderV2;'' @ ''\<newline>\<newline>'' @ rest"
  by (simp add: generated_text_def dispatchAbi_def visitAbi_def generateHeader_def)

section \<open>Function and event signatures\<close>

text \<open>
  C3. The text of a function entry is the name, the inputs, \<^verbatim>\<open>external\<close>, the
  mutability slot, the returns clause and the semicolon, separated by single
  spaces. The mutability slot holds the entry's state mutability verbatim when
  it is present and different from \<^verbatim>\<open>nonpayable\<close>, and is empty when the
  mutability is absent or \<^verbatim>\<open>nonpayable\<close>: a \<^verbatim>\<open>view\<close> function has the
  keyword \<^verbatim>\<open>view\<close> after \<^verbatim>\<open>external\<close>, a non-payable one has no keyword.
\<close>

theorem function_mutability_keyword:
  "visitFunctionEntry g nm ins outs m =
     ''function '' @ nm @ ''( '' @ join '','' (map (visitParameter g functionContext) ins)
       @ '' ) external ''
       @ (case m of None \<Rightarrow> '''' | Some k \<Rightarrow> if k = ''nonpayable'' then '''' else k)
       @ '' ''
       @ (case outs of None \<Rightarrow> '''' | Some os \<Rightarrow> if os = [] then ''''
            else ''returns ('' @ join '', '' (map (visitParameter g functionContext) os) @ '')'')
       @ '' ;''"
  by (simp add: visitFunctionEntry_def generateStateMutability_def split: option.splits)

theorem function_mutability_keyword_witness:
  "visitFunctionEntry exampleGenerator ''f'' [Parameter ''a'' ''uint256'' None None]
       (Some []) (Some ''view'')
     = ''function f( uint256 a ) external view  ;''
   \<and> visitFunctionEntry exampleGenerator ''f'' [Parameter ''a'' ''uint256'' None None]
       (Some []) (Some ''nonpayable'')
     = ''function f( uint256 a ) external   ;''
   \<and> visitFunctionEntry exampleGenerator ''f'' [Parameter ''a'' ''uint256'' None None]
       (Some []) None
     = ''function f( uint256 a ) external   ;''"
  using function_mutability_keyword [of exampleGenerator "''f''"
      "[Parameter ''a'' ''uint256'' None None]" "Some []" "Some ''view''"]
    function_mutability_keyword [of exampleGenerator "''f''"
      "[Parameter ''a'' ''uint256'' None None]" "Some []" "Some ''nonpayable''"]
    function_mutability_keyword [of exampleGenerator "''f''"
      "[Parameter ''a'' ''uint256'' None None]" "Some []" "None"]
  by (simp add: visitParameter_def generateType_def functionContext_def startsWith_def
      includesStr_def)

lemma visitParameter_function:
  "visitParameter g functionContext =
     (\<lambda>p. generateType g p
        @ (if startsWith (ptype p) ''tuple'' \<or> CHR ''['' \<in> set (ptype p)
              \<or> ptype p = ''bytes'' \<or> ptype p = ''string''
           then '' memory '' else '' '')
        @ pname p)"
  by (rule ext) (simp add: visitParameter_def functionContext_def includesStr_single)

lemma visitParameter_event:
  "visitParameter g eventContext =
     (\<lambda>p. generateType g p
        @ (if indexed p = Some True then '' indexed '' else '' '') @ pname p)"
  by (rule ext) (simp add: visitParameter_def eventContext_def)

text \<open>
  C4. Every input and every output of a function entry is rendered as its type,
  the qualifier \<^verbatim>\<open>memory\<close> exactly when its type string starts with
  \<^verbatim>\<open>tuple\<close>, contains a bracket (an array), or is \<^verbatim>\<open>bytes\<close> or
  \<^verbatim>\<open>string\<close>, and its name. Every input of an event entry is rendered as its
  type, the keyword \<^verbatim>\<open>indexed\<close> exactly when its indexed flag is set, and
  its name; the modifiers of an event input never contain \<^verbatim>\<open>memory\<close>.
\<close>

theorem parameter_modifiers_by_owner:
  "visitFunctionEntry g nm ins outs m =
     join '' ''
       [''function '' @ nm @ ''('',
        join '','' (map (\<lambda>p. generateType g p
            @ (if startsWith (ptype p) ''tuple'' \<or> CHR ''['' \<in> set (ptype p)
                  \<or> ptype p = ''bytes'' \<or> ptype p = ''string''
               then '' memory '' else '' '')
            @ pname p) ins),
        '') external'', generateStateMutability m,
        (case outs of None \<Rightarrow> '''' | Some os \<Rightarrow> if os = [] then ''''
         else ''returns (''
           @ join '', '' (map (\<lambda>p. generateType g p
               @ (if startsWith (ptype p) ''tuple'' \<or> CHR ''['' \<in> set (ptype p)
                     \<or> ptype p = ''bytes'' \<or> ptype p = ''string''
                  then '' memory '' else '' '')
               @ pname p) os)
           @ '')''),
        '';'']
   \<and> visitEventEntry g ev eins an =
     join '' ''
       [''event '' @ ev @ ''('',
        join '','' (map (\<lambda>p. generateType g p
            @ (if indexed p = Some True then '' indexed '' else '' '') @ pname p) eins),
        '')'', (if an = Some True then ''anonymous'' else '''') @ '';'']
   \<and> ''memory'' \<notin> set (parameterModifiers eventContext p)"
proof (intro conjI)
  show "''memory'' \<notin> set (parameterModifiers eventContext p)"
    by (simp add: eventContext_def)
qed (simp_all add: visitFunctionEntry_def visitEventEntry_def visitParameter_function
        visitParameter_event split: option.splits)

theorem parameter_modifiers_by_owner_witness:
  "visitFunctionEntry exampleGenerator ''f''
      [Parameter ''a'' ''uint256[]'' None None, Parameter ''b'' ''uint8'' None None]
      (Some [Parameter ''c'' ''string'' None None]) None
     = ''function f( uint256[] memory a,uint8 b ) external  returns (string memory c) ;''
   \<and> visitEventEntry exampleGenerator ''E''
      [Parameter ''a'' ''uint256[]'' None (Some True), Parameter ''b'' ''bytes'' None (Some False)]
      None
     = ''event E( uint256[] indexed a,bytes b ) ;''"
  using parameter_modifiers_by_owner [where g = exampleGenerator and nm = "''f''"
      and ins = "[Parameter ''a'' ''uint256[]'' None None, Parameter ''b'' ''uint8'' None None]"
      and outs = "Some [Parameter ''c'' ''string'' None None]" and m = None and ev = "''E''"
      and eins = "[Parameter ''a'' ''uint256[]'' None (Some True),
                   Parameter ''b'' ''bytes'' None (Some False)]"
      and an = None]
  by (simp add: generateStateMutability_def generateType_def startsWith_def)

section \<open>The interface body\<close>

text \<open>
  The claim C5 says that no blank line is left where a constructor entry was
  consumed. The body is joined from the text of every entry, the empty text of a
  constructor included: an ABI of a constructor and a receive entry has an empty
  line between the opening line and the receive entry.
\<close>

theorem constructor_leaves_blank_line:
  "generateInterface exampleGenerator
      [ConstructorEntry [] (Some ''nonpayable''), ReceiveEntry (Some ''payable'')]
     = ''interface MyInterface {\<newline>\<newline>receive () external payable;\<newline>}''"
  by (simp add: generateInterface_def exampleGenerator_def SolidityGenerator_def
      exampleDefaults_def noOptions_def visitConstructorEntry_def visitReceiveEntry_def)

text \<open>
  C5, as the code has it. A constructor entry renders to the empty text. The
  interface is the line \<^verbatim>\<open>interface <Name> {\<close>, then one line for every entry of
  the ABI in order, holding the text of that entry (an empty line for a
  constructor entry), then the line \<^verbatim>\<open>}\<close>.
\<close>

theorem interface_one_line_per_entry:
  "dispatch g (ConstructorEntry inputs m) = ''''
   \<and> generateInterface g abi =
       ''interface '' @ name g @ '' {''
       @ concat (map (\<lambda>e. ''\<newline>'' @ dispatch g e) abi) @ ''\<newline>}''"
  by (simp add: generateInterface_def visitConstructorEntry_def join_lines comp_def)

section \<open>The formatting pass\<close>

text \<open>
  C7. With the formatting option off or absent the result is the generated text,
  whatever the formatter would do (it is never consulted); and when the
  formatter throws on the generated text the result is the generated text,
  unchanged.
\<close>

theorem formatting_never_fails_the_run:
  "(opt_prettier options \<noteq> Some True \<longrightarrow>
      generateSolidity (env\<lparr>prettier_format := f\<rparr>) options abi
        = generated_text env options abi)
   \<and> (prettier_format env (generated_text env options abi) = Inl e \<longrightarrow>
      generateSolidity env options abi = generated_text env options abi)"
  by (simp add: generateSolidity_def generated_text_def dispatchAbi_def Let_def)

theorem formatting_never_fails_the_run_witness:
  "generateSolidity exampleEnvironment (noOptions\<lparr>opt_prettier := Some True\<rparr>) []
     = generated_text exampleEnvironment (noOptions\<lparr>opt_prettier := Some True\<rparr>) []
   \<and> generateSolidity (exampleEnvironment\<lparr>prettier_format := (\<lambda>text. Inr ''formatted'')\<rparr>)
       noOptions []
     = generated_text exampleEnvironment noOptions []"
  using formatting_never_fails_the_run [where options = noOptions and env = exampleEnvironment
      and f = "\<lambda>text. Inr ''formatted''" and abi = "[]" and e = FormatterError]
    formatting_never_fails_the_run [where options = "noOptions\<lparr>opt_prettier := Some True\<rparr>"
      and env = exampleEnvironment and f = "\<lambda>text. Inr ''formatted''" and abi = "[]"
      and e = FormatterError]
  by (simp add: noOptions_def exampleEnvironment_def failingFormatter_def)

section \<open>The identifiers of the declaration table\<close>

lemma digit_inj:
  "i < 10 \<Longrightarrow> j < 10 \<Longrightarrow> ''0123456789'' ! i = ''0123456789'' ! j \<Longrightarrow> i = j"
proof -
  assume "i < 10" "j < 10" and e: "''0123456789'' ! i = ''0123456789'' ! j"
  moreover have "distinct ''0123456789''" by simp
  moreover have "length ''0123456789'' = 10" by simp
  ultimately show "i = j" by (metis nth_eq_iff_index_eq)
qed

lemma numberToString_nonempty: "numberToString n \<noteq> []"
  by (subst numberToString.simps) simp

lemma numberToString_inj: "numberToString n = numberToString m \<Longrightarrow> n = m"
proof (induction n arbitrary: m rule: numberToString.induct)
  case (1 n)
  show ?case
  proof (cases "n < 10")
    case small_n: True
    show ?thesis
    proof (cases "m < 10")
      case True
      with small_n "1.prems" show ?thesis
        by (simp add: numberToString.simps [of n] numberToString.simps [of m] digit_inj)
    next
      case False
      with small_n "1.prems" numberToString_nonempty [of "m div 10"] show ?thesis
        by (simp add: numberToString.simps [of n] numberToString.simps [of m])
    qed
  next
    case big_n: False
    show ?thesis
    proof (cases "m < 10")
      case True
      with big_n "1.prems" numberToString_nonempty [of "n div 10"] show ?thesis
        by (simp add: numberToString.simps [of n] numberToString.simps [of m])
    next
      case False
      with big_n "1.prems"
      have e: "numberToString (n div 10) = numberToString (m div 10)"
        and d: "''0123456789'' ! (n mod 10) = ''0123456789'' ! (m mod 10)"
        by (simp_all add: numberToString.simps [of n] numberToString.simps [of m])
      have "n div 10 = m div 10" using "1.IH" big_n e by simp
      moreover have "n mod 10 = m mod 10" using d by (intro digit_inj) simp_all
      ultimately show ?thesis by (metis div_mult_mod_eq)
    qed
  qed
qed

lemma assignIdentifiers_other:
  "k \<notin> fst ` set ds \<Longrightarrow> fst (assignIdentifiers ds (ids, n)) k = ids k"
  by (induction ds "(ids, n)" arbitrary: ids n rule: assignIdentifiers.induct)
     (auto split: option.splits)

lemma assignIdentifiers_step:
  "assignIdentifiers ((s, d) # ds) (ids, n) =
     (if lacksIdentifier d
      then assignIdentifiers ds (ids(s \<mapsto> ''S_'' @ numberToString n), Suc n)
      else assignIdentifiers ds (ids(s \<mapsto> the (d_identifier d)), n))"
  by (auto simp: lacksIdentifier_def split: option.splits)

lemma syntheticIndex_Suc:
  "syntheticIndex ((s, d) # ds) (Suc j) =
     (if lacksIdentifier d then Suc (syntheticIndex ds j) else syntheticIndex ds j)"
  by (simp add: syntheticIndex_def)

lemma assignIdentifiers_nth:
  "distinct (map fst ds) \<Longrightarrow> i < length ds \<Longrightarrow>
   fst (assignIdentifiers ds (ids, n)) (fst (ds ! i)) =
     Some (if lacksIdentifier (snd (ds ! i))
           then ''S_'' @ numberToString (n + syntheticIndex ds i)
           else the (d_identifier (snd (ds ! i))))"
proof (induction ds arbitrary: ids n i)
  case Nil
  then show ?case by simp
next
  case (Cons e ds)
  obtain s d where e: "e = (s, d)" by (cases e)
  show ?case
  proof (cases i)
    case 0
    with Cons.prems e show ?thesis
      by (simp add: assignIdentifiers_step assignIdentifiers_other syntheticIndex_def
          del: assignIdentifiers.simps)
  next
    case (Suc j)
    with Cons.prems have "j < length ds" and "distinct (map fst ds)" by simp_all
    then show ?thesis
      using Suc e
      by (simp add: assignIdentifiers_step syntheticIndex_Suc Cons.IH
          del: assignIdentifiers.simps)
  qed
qed

lemma assignIdentifiers_counter:
  "snd (assignIdentifiers ds (ids, n)) = n + length (filter (\<lambda>e. lacksIdentifier (snd e)) ds)"
proof (induction ds arbitrary: ids n)
  case Nil
  then show ?case by simp
next
  case (Cons e ds)
  obtain s d where e: "e = (s, d)" by (cases e)
  show ?case
    unfolding e by (simp add: assignIdentifiers_step Cons.IH del: assignIdentifiers.simps)
qed


lemma filter_take_mono:
  "i \<le> j \<Longrightarrow> length (filter P (take i xs)) \<le> length (filter P (take j xs))"
proof -
  assume "i \<le> j"
  then have "take j xs = take i xs @ take (j - i) (drop i xs)"
    by (metis le_add_diff_inverse take_add)
  then show ?thesis by simp
qed

lemma syntheticIndex_less:
  assumes "i < j" "j \<le> length ds" "lacksIdentifier (snd (ds ! i))"
  shows "syntheticIndex ds i < syntheticIndex ds j"
proof -
  have "i < length ds" using assms by simp
  then have "take (Suc i) ds = take i ds @ [ds ! i]"
    by (simp add: take_Suc_conv_app_nth)
  then have "syntheticIndex ds (Suc i) = Suc (syntheticIndex ds i)"
    using assms(3) by (simp add: syntheticIndex_def)
  moreover have "syntheticIndex ds (Suc i) \<le> syntheticIndex ds j"
    unfolding syntheticIndex_def using assms(1) by (intro filter_take_mono) simp
  ultimately show ?thesis by simp
qed

lemma syntheticIndex_bound:
  assumes "i < length ds" "lacksIdentifier (snd (ds ! i))"
  shows "syntheticIndex ds i < length (filter (\<lambda>e. lacksIdentifier (snd e)) ds)"
  using syntheticIndex_less [of i "length ds" ds] assms by (simp add: syntheticIndex_def)

lemma inferred_mem:
  assumes "i < length ds" "\<not> lacksIdentifier (snd (ds ! i))"
  shows "the (d_identifier (snd (ds ! i))) \<in> set (inferredIdentifiers ds)"
  using assms by (force simp: inferredIdentifiers_def)

lemma inferred_distinct:
  assumes "distinct (map fst ds)" "distinct (inferredIdentifiers ds)"
    and "i < length ds" "j < length ds" "i \<noteq> j"
    and "\<not> lacksIdentifier (snd (ds ! i))" "\<not> lacksIdentifier (snd (ds ! j))"
  shows "the (d_identifier (snd (ds ! i))) \<noteq> the (d_identifier (snd (ds ! j)))"
proof
  assume eq: "the (d_identifier (snd (ds ! i))) = the (d_identifier (snd (ds ! j)))"
  have inj: "inj_on (\<lambda>e. the (d_identifier (snd e)))
      (set (filter (\<lambda>e. \<not> lacksIdentifier (snd e)) ds))"
    using assms(2) by (simp add: inferredIdentifiers_def distinct_map)
  have "ds ! i \<in> set (filter (\<lambda>e. \<not> lacksIdentifier (snd e)) ds)"
    and "ds ! j \<in> set (filter (\<lambda>e. \<not> lacksIdentifier (snd e)) ds)"
    using assms by simp_all
  with inj eq have "ds ! i = ds ! j" by (auto dest: inj_onD)
  then have "map fst ds ! i = map fst ds ! j" using assms by simp
  moreover have "i < length (map fst ds)" "j < length (map fst ds)" using assms by simp_all
  ultimately show False
    using assms(1,5) nth_eq_iff_index_eq by blast
qed

text \<open>
  The claim C2 says that no two entries of the table ever share an identifier. An
  inferred identifier is copied as it is, and nothing compares it with the
  synthetic ones: in a table whose first entry is named \<^verbatim>\<open>S_0\<close> and whose
  second entry has no identifier, both entries end up as \<^verbatim>\<open>S_0\<close>.
\<close>

theorem inferred_identifier_collides_with_synthetic:
  "distinct (map fst collidingTable)
   \<and> identifiers (SolidityGenerator exampleDefaults noOptions collidingTable) ''(uint256)''
       = Some ''S_0''
   \<and> identifiers (SolidityGenerator exampleDefaults noOptions collidingTable) ''(address)''
       = Some ''S_0''"
  by (simp add: collidingTable_def SolidityGenerator_def numberToString.simps)

text \<open>
  C2, as the code has it. In a table (with pairwise different signatures), an
  entry that lacks an inferred identifier gets \<^verbatim>\<open>S_k\<close>, where \<open>k\<close> counts the
  earlier entries that lack one (so \<^verbatim>\<open>S_0\<close>, \<^verbatim>\<open>S_1\<close>, ... in table order), and
  an entry with an inferred identifier keeps it. Two entries that both lack an
  identifier never share one. No two entries at all share an identifier when the
  inferred identifiers are pairwise different and none of them is one of the
  synthetic identifiers of the run.
\<close>

theorem identifiers_assigned_in_order:
  assumes "distinct (map fst ds)"
  shows "(\<forall>i<length ds.
            identifiers (SolidityGenerator dflt options ds) (fst (ds ! i)) =
              Some (if lacksIdentifier (snd (ds ! i))
                    then ''S_'' @ numberToString (syntheticIndex ds i)
                    else the (d_identifier (snd (ds ! i)))))
       \<and> (\<forall>i<length ds. \<forall>j<length ds.
            i \<noteq> j \<and> lacksIdentifier (snd (ds ! i)) \<and> lacksIdentifier (snd (ds ! j)) \<longrightarrow>
            identifiers (SolidityGenerator dflt options ds) (fst (ds ! i))
              \<noteq> identifiers (SolidityGenerator dflt options ds) (fst (ds ! j)))
       \<and> (distinct (inferredIdentifiers ds)
            \<and> (\<forall>k<length (filter (\<lambda>e. lacksIdentifier (snd e)) ds).
                  ''S_'' @ numberToString k \<notin> set (inferredIdentifiers ds)) \<longrightarrow>
          (\<forall>i<length ds. \<forall>j<length ds.
            i \<noteq> j \<longrightarrow>
            identifiers (SolidityGenerator dflt options ds) (fst (ds ! i))
              \<noteq> identifiers (SolidityGenerator dflt options ds) (fst (ds ! j))))"
proof -
  let ?ids = "identifiers (SolidityGenerator dflt options ds)"
  have assigned: "?ids (fst (ds ! i)) =
      Some (if lacksIdentifier (snd (ds ! i))
            then ''S_'' @ numberToString (syntheticIndex ds i)
            else the (d_identifier (snd (ds ! i))))" if "i < length ds" for i
    using assignIdentifiers_nth [OF assms that, of Map.empty 0]
    by (simp add: SolidityGenerator_def)
  have synthetic: "?ids (fst (ds ! i)) \<noteq> ?ids (fst (ds ! j))"
    if "i < length ds" "j < length ds" "i \<noteq> j"
      "lacksIdentifier (snd (ds ! i))" "lacksIdentifier (snd (ds ! j))" for i j
  proof -
    have "syntheticIndex ds i \<noteq> syntheticIndex ds j"
    proof (cases "i < j")
      case True
      then show ?thesis using syntheticIndex_less [of i j ds] that by simp
    next
      case False
      then have "j < i" using that(3) by simp
      then show ?thesis using syntheticIndex_less [of j i ds] that by simp
    qed
    then show ?thesis
      using that numberToString_inj by (auto simp: assigned)
  qed
  have unique: "?ids (fst (ds ! i)) \<noteq> ?ids (fst (ds ! j))"
    if d: "distinct (inferredIdentifiers ds)"
      and s: "\<forall>k<length (filter (\<lambda>e. lacksIdentifier (snd e)) ds).
                  ''S_'' @ numberToString k \<notin> set (inferredIdentifiers ds)"
      and ij: "i < length ds" "j < length ds" "i \<noteq> j" for i j
  proof -
    have mixed: "''S_'' @ numberToString (syntheticIndex ds a) \<noteq> the (d_identifier (snd (ds ! b)))"
      if "a < length ds" "b < length ds" "lacksIdentifier (snd (ds ! a))"
        "\<not> lacksIdentifier (snd (ds ! b))" for a b
      using s syntheticIndex_bound [OF that(1,3)] inferred_mem [OF that(2,4)] by auto
    show ?thesis
    proof (cases "lacksIdentifier (snd (ds ! i))")
      case li: True
      show ?thesis
      proof (cases "lacksIdentifier (snd (ds ! j))")
        case True
        then show ?thesis using synthetic ij li by simp
      next
        case False
        then show ?thesis using mixed [of i j] ij li by (simp add: assigned)
      qed
    next
      case li: False
      show ?thesis
      proof (cases "lacksIdentifier (snd (ds ! j))")
        case True
        then show ?thesis using mixed [of j i] ij li by (auto simp: assigned)
      next
        case False
        then show ?thesis
          using inferred_distinct [OF assms d ij li False] ij li by (simp add: assigned)
      qed
    qed
  qed
  show ?thesis
  proof (intro conjI)
    show "\<forall>i<length ds.
            ?ids (fst (ds ! i)) =
              Some (if lacksIdentifier (snd (ds ! i))
                    then ''S_'' @ numberToString (syntheticIndex ds i)
                    else the (d_identifier (snd (ds ! i))))"
      using assigned by blast
    show "\<forall>i<length ds. \<forall>j<length ds.
            i \<noteq> j \<and> lacksIdentifier (snd (ds ! i)) \<and> lacksIdentifier (snd (ds ! j)) \<longrightarrow>
            ?ids (fst (ds ! i)) \<noteq> ?ids (fst (ds ! j))"
      using synthetic by blast
    show "distinct (inferredIdentifiers ds)
            \<and> (\<forall>k<length (filter (\<lambda>e. lacksIdentifier (snd e)) ds).
                  ''S_'' @ numberToString k \<notin> set (inferredIdentifiers ds)) \<longrightarrow>
          (\<forall>i<length ds. \<forall>j<length ds.
            i \<noteq> j \<longrightarrow> ?ids (fst (ds ! i)) \<noteq> ?ids (fst (ds ! j)))"
      using unique by blast
  qed
qed


theorem identifiers_assigned_in_order_witness:
  "distinct (map fst exampleTable)
   \<and> identifiers (SolidityGenerator exampleDefaults noOptions exampleTable) ''(uint256)''
       = Some ''S_0''
   \<and> identifiers (SolidityGenerator exampleDefaults noOptions exampleTable) ''((uint256)[],address)''
       = Some ''Foo''
   \<and> identifiers (SolidityGenerator exampleDefaults noOptions exampleTable) ''(bool)''
       = Some ''S_1''
   \<and> identifiers (SolidityGenerator exampleDefaults noOptions exampleTable) ''(uint256)''
       \<noteq> identifiers (SolidityGenerator exampleDefaults noOptions exampleTable) ''(bool)''
   \<and> identifiers (SolidityGenerator exampleDefaults noOptions exampleTable) ''(bool)''
       \<noteq> identifiers (SolidityGenerator exampleDefaults noOptions exampleTable) ''((uint256)[],address)''"
proof -
  let ?ids = "identifiers (SolidityGenerator exampleDefaults noOptions exampleTable)"
  have d: "distinct (map fst exampleTable)"
    by (simp add: exampleTable_def)
  note t = identifiers_assigned_in_order [OF d, of exampleDefaults noOptions]
  have len: "length exampleTable = 3" by (simp add: exampleTable_def)
  have e0: "exampleTable ! 0 = (''(uint256)'',
       \<lparr> d_identifier = None,
         d_components = [\<lparr> cname = ''a'', ctype = ''uint256'', csignature = None \<rparr>] \<rparr>)"
    and e1: "exampleTable ! 1 = (''((uint256)[],address)'',
       \<lparr> d_identifier = Some ''Foo'',
         d_components =
           [\<lparr> cname = ''xs'', ctype = ''tuple[]'', csignature = Some ''(uint256)'' \<rparr>,
            \<lparr> cname = ''b'', ctype = ''address'', csignature = None \<rparr>] \<rparr>)"
    and e2: "exampleTable ! 2 = (''(bool)'',
       \<lparr> d_identifier = Some '''',
         d_components = [\<lparr> cname = ''ok'', ctype = ''bool'', csignature = None \<rparr>] \<rparr>)"
    by (simp_all add: exampleTable_def)
  have s0: "syntheticIndex exampleTable 0 = 0" and s2: "syntheticIndex exampleTable 2 = 1"
    by (simp_all add: syntheticIndex_def exampleTable_def lacksIdentifier_def numeral_2_eq_2)
  have a0: "?ids ''(uint256)'' = Some ''S_0''"
    using t [THEN conjunct1, rule_format, of 0] len e0 s0
    by (simp add: lacksIdentifier_def numberToString.simps)
  have a1: "?ids ''((uint256)[],address)'' = Some ''Foo''"
    using t [THEN conjunct1, rule_format, of 1] len e1
    by (simp add: lacksIdentifier_def)
  have a2: "?ids ''(bool)'' = Some ''S_1''"
    using t [THEN conjunct1, rule_format, of 2] len e2 s2
    by (simp add: lacksIdentifier_def numberToString.simps)
  have b: "?ids ''(uint256)'' \<noteq> ?ids ''(bool)''"
    using t [THEN conjunct2, THEN conjunct1, rule_format, of 0 2] len e0 e2
    by (simp add: lacksIdentifier_def)
  have inf: "inferredIdentifiers exampleTable = [''Foo'']"
    by (simp add: inferredIdentifiers_def exampleTable_def lacksIdentifier_def)
  have cnt: "length (filter (\<lambda>e. lacksIdentifier (snd e)) exampleTable) = 2"
    by (simp add: exampleTable_def lacksIdentifier_def)
  have c: "?ids ''(bool)'' \<noteq> ?ids ''((uint256)[],address)''"
    using t [THEN conjunct2, THEN conjunct2, rule_format, of 2 1] len e1 e2 inf cnt
    by simp
  show ?thesis using d a0 a1 a2 b c by simp
qed


section \<open>Tuple types and the identifier table\<close>

lemma assignIdentifiers_dom:
  "dom (fst (assignIdentifiers ds (ids, n))) = dom ids \<union> fst ` set ds"
  by (induction ds "(ids, n)" arbitrary: ids n rule: assignIdentifiers.induct)
     (auto split: option.splits)

text \<open>
  The claim C6 says that rendering a tuple whose signature has no entry fails. It
  does not: over the empty table, a function with one tuple array input is
  rendered, with the type name \<^verbatim>\<open>undefined[]\<close>.
\<close>

theorem missing_declaration_renders_undefined:
  "identifiers exampleGenerator (abiTupleSignature [Parameter ''a'' ''uint256'' None None]) = None
   \<and> visitFunctionEntry exampleGenerator ''f''
       [Parameter ''x'' ''tuple[]'' (Some [Parameter ''a'' ''uint256'' None None]) None] None None
     = ''function f( undefined[] memory x ) external   ;''"
  by (simp add: exampleGenerator_def SolidityGenerator_def visitFunctionEntry_def
      visitParameter_def generateType_def functionContext_def startsWith_def toString_def
      replace_def generateStateMutability_def)

text \<open>
  C6, as the code has it. For a parameter with components whose signature is not
  a key of the declaration table, rendering the type does not fail: the result is
  the type string with the first \<^verbatim>\<open>tuple\<close> replaced by the text
  \<^verbatim>\<open>undefined\<close>, so \<^verbatim>\<open>undefined\<close> followed by the array suffixes when the
  type string starts with \<^verbatim>\<open>tuple\<close>.
\<close>

theorem unresolved_tuple_renders_undefined:
  "components p = Some cs \<Longrightarrow> abiTupleSignature cs \<notin> fst ` set ds \<Longrightarrow>
   generateType (SolidityGenerator dflt options ds) p = replace (ptype p) ''tuple'' ''undefined''
   \<and> (ptype p = ''tuple'' @ sfx \<longrightarrow>
        generateType (SolidityGenerator dflt options ds) p = ''undefined'' @ sfx)"
proof -
  assume c: "components p = Some cs" and a: "abiTupleSignature cs \<notin> fst ` set ds"
  have "abiTupleSignature cs \<notin> dom (fst (assignIdentifiers ds (Map.empty, 0)))"
    using a by (simp add: assignIdentifiers_dom)
  then have n: "identifiers (SolidityGenerator dflt options ds) (abiTupleSignature cs) = None"
    by (auto simp: SolidityGenerator_def)
  have r: "generateType (SolidityGenerator dflt options ds) p
        = replace (ptype p) ''tuple'' ''undefined''"
    using c n by (simp add: generateType_def toString_def)
  have "replace (''tuple'' @ sfx) ''tuple'' ''undefined'' = ''undefined'' @ sfx"
    by (simp only: replace_prefix) (simp add: getSubstitution_plain)
  with r show ?thesis by simp
qed

theorem unresolved_tuple_renders_undefined_witness:
  "components (Parameter ''x'' ''tuple[2]'' (Some [Parameter ''a'' ''address'' None None]) None)
     = Some [Parameter ''a'' ''address'' None None]
   \<and> abiTupleSignature [Parameter ''a'' ''address'' None None] \<notin> fst ` set exampleTable
   \<and> generateType (SolidityGenerator exampleDefaults noOptions exampleTable)
       (Parameter ''x'' ''tuple[2]'' (Some [Parameter ''a'' ''address'' None None]) None)
     = ''undefined[2]''"
proof -
  have c: "components (Parameter ''x'' ''tuple[2]'' (Some [Parameter ''a'' ''address'' None None]) None)
     = Some [Parameter ''a'' ''address'' None None]"
    by simp
  have a: "abiTupleSignature [Parameter ''a'' ''address'' None None] \<notin> fst ` set exampleTable"
    by (simp add: exampleTable_def)
  show ?thesis
    using c a unresolved_tuple_renders_undefined [OF c a, of exampleDefaults noOptions "''[2]''"]
    by (simp add: replace_def startsWith_def)
qed

lemma sameShape_signature:
  "sameShape p q \<Longrightarrow> abiTypeSignature p = abiTypeSignature q"
  "sameShapes ps qs \<Longrightarrow> map abiTypeSignature ps = map abiTypeSignature qs"
  by (induction p q and ps qs rule: sameShape_sameShapes.induct) simp_all

lemma sameShapes_signature:
  "sameShapes ps qs \<Longrightarrow> abiTupleSignature ps = abiTupleSignature qs"
  by (simp add: sameShape_signature(2))

lemma same_shape_same_lookup:
  assumes "components p = Some cs" and "components q = Some cs'" and "sameShapes cs cs'"
  shows "generateType g p =
           replace (ptype p) ''tuple'' (toString (identifiers g (abiTupleSignature cs)))
       \<and> generateType g q =
           replace (ptype q) ''tuple'' (toString (identifiers g (abiTupleSignature cs)))"
  using assms sameShapes_signature [OF assms(3)] by (simp add: generateType_def)

text \<open>
  C1. Two parameters with structurally identical components look up one and the
  same identifier, but what they render is not always that identifier. The
  declaration is written with the identifier as it is; the type of a parameter
  is written by a replacement in which two dollar signs in a row stand for one.
  For the struct \<^verbatim>\<open>A$$B\<close> the declaration reads \<^verbatim>\<open>struct A$$B\<close>, and the two
  structurally identical parameters are rendered as \<^verbatim>\<open>A$B\<close> and
  \<^verbatim>\<open>A$B[]\<close>, a name that no declaration has.
\<close>

theorem dollar_identifier_is_not_rendered_verbatim:
  "sameShapes [Parameter ''a'' ''uint256'' None None]
       [Parameter ''amount'' ''uint256'' None (Some True)]
   \<and> identifiers (SolidityGenerator exampleDefaults noOptions dollarTable)
       (abiTupleSignature [Parameter ''a'' ''uint256'' None None]) = Some ''A$$B''
   \<and> generateDeclarations (SolidityGenerator exampleDefaults noOptions dollarTable)
     = ''struct A$$B { uint256 a; }''
   \<and> generateType (SolidityGenerator exampleDefaults noOptions dollarTable)
       (Parameter ''x'' ''tuple'' (Some [Parameter ''a'' ''uint256'' None None]) None)
     = ''A$B''
   \<and> generateType (SolidityGenerator exampleDefaults noOptions dollarTable)
       (Parameter ''y'' ''tuple[]'' (Some [Parameter ''amount'' ''uint256'' None (Some True)]) None)
     = ''A$B[]''"
  by (simp add: SolidityGenerator_def dollarTable_def generateDeclarations_def
      generateComponents_def generateType_def toString_def replace_def startsWith_def)

section \<open>The provenance footer\<close>









end
